theory Spec2Isabelle
  imports Complex_Main "HOL-Library.Monad_Syntax" "HOL-Library.Sublist"
begin

section \<open>Python strings\<close>

text \<open>
  Strings are character lists. The helpers below are the parts of Python's \<open>str\<close>
  that the embedded functions call: \<open>strip\<close>, \<open>split\<close> on a one-character
  separator, \<open>startswith\<close>, \<open>lower\<close> and the decimal rendering of an integer.
  Whitespace is the ASCII part of what \<open>str.isspace\<close> accepts.
\<close>

definition is_space :: "char \<Rightarrow> bool" where
  "is_space c = (let n = (of_char c :: nat) in (9 \<le> n \<and> n \<le> 13) \<or> (28 \<le> n \<and> n \<le> 32))"

definition strip :: "string \<Rightarrow> string" where
  "strip s = rev (dropWhile is_space (rev (dropWhile is_space s)))"

fun split_on :: "char \<Rightarrow> string \<Rightarrow> string list" where
  "split_on c [] = [[]]"
| "split_on c (x # xs) =
     (if x = c then [] # split_on c xs
      else (case split_on c xs of
              [] \<Rightarrow> [[x]]
            | w # ws \<Rightarrow> (x # w) # ws))"

definition startswith :: "string \<Rightarrow> string \<Rightarrow> bool" where
  "startswith s p = (take (length p) s = p)"

definition lower_char :: "char \<Rightarrow> char" where
  "lower_char c = (let n = (of_char c :: nat) in if 65 \<le> n \<and> n \<le> 90 then char_of (n + 32) else c)"

definition lower :: "string \<Rightarrow> string" where
  "lower s = map lower_char s"

definition digit_char :: "nat \<Rightarrow> char" where
  "digit_char d = char_of (48 + d)"

fun str_nat :: "nat \<Rightarrow> string" where
  "str_nat n = (if n < 10 then [digit_char n] else str_nat (n div 10) @ [digit_char (n mod 10)])"

declare str_nat.simps [simp del]

definition str_int :: "int \<Rightarrow> string" where
  "str_int i = (if i < 0 then CHR ''-'' # str_nat (nat (- i)) else str_nat (nat i))"

section \<open>Alert documents and priority derivation\<close>

text \<open>
  Times (\<open>datetime\<close> values) are integers counting microseconds; the clock reading
  \<open>datetime.utcnow()\<close> is an argument of every function that reads it.
\<close>

type_synonym time = int

record alert_doc =
  a_attack_type :: string
  a_url :: string
  a_src_ip :: string
  a_dst_ip :: string
  a_http_method :: string
  a_params :: string
  a_user_agent :: string
  a_confidence :: int
  a_raw :: string
  a_timestamp :: time
  a_status :: string
  a_priority :: string
  a_notes :: string
  a_created_at :: time
  a_updated_at :: time

text \<open>\<open>get_priority\<close> of the server (app.py).\<close>

definition get_priority :: "int \<Rightarrow> string" where
  "get_priority confidence =
     (if confidence \<ge> 90 then ''critical''
      else if confidence \<ge> 75 then ''high''
      else if confidence \<ge> 60 then ''medium''
      else ''low'')"

text \<open>
  \<open>AlertDocument.create\<close> (models_mongodb.py). The keyword arguments with defaults are
  explicit arguments here; \<open>timestamp\<close> and \<open>priority\<close> are optional (\<open>None\<close>).
\<close>

definition AlertDocument_create ::
  "string \<Rightarrow> string \<Rightarrow> string \<Rightarrow> int \<Rightarrow> string \<Rightarrow> string \<Rightarrow> string \<Rightarrow> string \<Rightarrow> string
     \<Rightarrow> time option \<Rightarrow> string \<Rightarrow> string option \<Rightarrow> string \<Rightarrow> time \<Rightarrow> alert_doc" where
  "AlertDocument_create attack_type url src_ip confidence raw dst_ip http_method params
       user_agent timestamp status priority notes now =
     (let priority' =
        (case priority of
           None \<Rightarrow>
             (if confidence \<ge> 90 then ''critical''
              else if confidence \<ge> 75 then ''high''
              else if confidence \<ge> 60 then ''medium''
              else ''low'')
         | Some p \<Rightarrow> p)
      in \<lparr> a_attack_type = attack_type, a_url = url, a_src_ip = src_ip, a_dst_ip = dst_ip,
           a_http_method = http_method, a_params = params, a_user_agent = user_agent,
           a_confidence = confidence, a_raw = raw,
           a_timestamp = (case timestamp of None \<Rightarrow> now | Some t \<Rightarrow> t),
           a_status = status, a_priority = priority', a_notes = notes,
           a_created_at = now, a_updated_at = now \<rparr>)"

section \<open>Packet counting\<close>

text \<open>
  The outcome of one \<open>subprocess.run\<close> call: it raised, or it completed with a return
  code and its two output streams.
\<close>

datatype proc_result = Raised | Completed (returncode: int) (stdout: string) (stderr: string)

definition nonblank_lines :: "string \<Rightarrow> string list" where
  "nonblank_lines out = filter (\<lambda>l. strip l \<noteq> []) (split_on CHR 0x0A (strip out))"

text \<open>The three tool attempts of \<open>count_packets_in_pcap\<close>; \<open>None\<close> is falling through.\<close>

definition tshark_fields_count :: "proc_result \<Rightarrow> int option" where
  "tshark_fields_count r =
     (case r of
        Raised \<Rightarrow> None
      | Completed rc out err \<Rightarrow>
          (if rc = 0 \<and> out \<noteq> [] then
             (let lines = map strip (nonblank_lines out)
              in if lines \<noteq> [] then Some (int (length lines)) else None)
           else None))"

definition tshark_count_count :: "proc_result \<Rightarrow> int option" where
  "tshark_count_count r =
     (case r of
        Raised \<Rightarrow> None
      | Completed rc out err \<Rightarrow>
          (if rc = 0 then
             (let output = (if err \<noteq> [] then out @ err else out)
              in if output \<noteq> [] then
                   Some (int (length (filter (\<lambda>l. \<not> startswith l ''Capturing'')
                                        (nonblank_lines output))))
                 else None)
           else None))"

definition tcpdump_count :: "proc_result \<Rightarrow> int option" where
  "tcpdump_count r =
     (case r of
        Raised \<Rightarrow> None
      | Completed rc out err \<Rightarrow>
          (if rc = 0 \<and> out \<noteq> [] then
             (let lines = map strip (filter (\<lambda>l. \<not> startswith l ''tcpdump'') (nonblank_lines out))
              in if lines \<noteq> [] then Some (int (length lines)) else None)
           else None))"

text \<open>
  \<open>count_packets_in_pcap\<close> (utils/pcap_utils.py). Its inputs are what the operating
  system answers: whether the file exists, its size (\<open>None\<close> when \<open>getsize\<close> raises)
  and the outcomes of the three tool runs.
\<close>

definition count_packets_in_pcap ::
  "bool \<Rightarrow> int option \<Rightarrow> proc_result \<Rightarrow> proc_result \<Rightarrow> proc_result \<Rightarrow> int" where
  "count_packets_in_pcap exists getsize tshark1 tshark2 tcpdump =
     (if \<not> exists then 0
      else case getsize of
        None \<Rightarrow> 0
      | Some file_size \<Rightarrow>
          if file_size \<le> 24 then 0
          else case tshark_fields_count tshark1 of
            Some n \<Rightarrow> n
          | None \<Rightarrow>
             (case tshark_count_count tshark2 of
                Some n \<Rightarrow> n
              | None \<Rightarrow>
                 (case tcpdump_count tcpdump of
                    Some n \<Rightarrow> n
                  | None \<Rightarrow>
                     (let remaining_size = file_size - 24
                      in if remaining_size > 0 then
                           (let estimated = max 1 (remaining_size div 128)
                            in min estimated 1000000)
                         else 0))))"

text \<open>
  The packet count that \<open>PcapCaptureService.stop_capture\<close> (services/pcap_service.py)
  stores: \<open>immediate\<close> is what the immediate count returned (0 when it raised).
\<close>

definition stop_capture_packet_count :: "int \<Rightarrow> int \<Rightarrow> int" where
  "stop_capture_packet_count file_size immediate =
     (if immediate = 0 \<and> file_size > 24 then
        (let estimated = max 1 ((file_size - 24) div 64)
         in min estimated 1000000)
      else immediate)"

section \<open>Document store, blocklist and whitelist\<close>

text \<open>
  A collection is the list of its documents in insertion order; \<open>find_one\<close> returns the
  first match and \<open>update_one\<close> changes the first match. The field \<open>is_active\<close> is
  optional because \<open>should_auto_block\<close> reads it with a default
  (\<open>existing.get('is_active', True)\<close>) while the queries of \<open>check_ip_blocked\<close> and
  \<open>check_ip_whitelisted\<close> match only a stored \<open>True\<close>.
\<close>

record blocklist_doc =
  b_ip :: string
  b_reason :: string
  b_auto_blocked :: bool
  b_attack_count :: int
  b_is_active :: "bool option"
  b_created_at :: time

record whitelist_doc =
  w_ip :: string
  w_reason :: string
  w_is_active :: "bool option"
  w_created_at :: time

text \<open>\<open>BlocklistDocument.create\<close> (models_mongodb.py).\<close>

definition BlocklistDocument_create :: "string \<Rightarrow> string \<Rightarrow> bool \<Rightarrow> int \<Rightarrow> time \<Rightarrow> blocklist_doc" where
  "BlocklistDocument_create ip reason auto_blocked attack_count now =
     \<lparr> b_ip = ip, b_reason = reason, b_auto_blocked = auto_blocked,
       b_attack_count = attack_count, b_is_active = Some True, b_created_at = now \<rparr>"

text \<open>
  The payload of a \<open>new_alert\<close> event, and the events sent to the connected clients. An
  \<open>ip_blocked\<close> event carries the identifier of the inserted document (its position in
  the collection) and the document.
\<close>

record alert_summary =
  n_id :: nat
  n_attack :: string
  n_confidence :: int
  n_priority :: string
  n_src_ip :: string

datatype event = Ip_blocked nat blocklist_doc | New_alert alert_summary

text \<open>What one call of \<open>socketio.emit\<close> does.\<close>

datatype emit_outcome = Delivered | Raises_TypeError | Raises_AttributeError | Raises_Exception

record socketio =
  emit_default :: "event \<Rightarrow> emit_outcome"
  emit_namespace :: "event \<Rightarrow> emit_outcome"

record config =
  AUTO_BLOCK_THRESHOLD :: int
  AUTO_BLOCK_WINDOW_HOURS :: int

text \<open>
  The state of the server that the embedded functions read and write: the three
  collections, the events delivered to the clients and the lines written to \<open>sys.stderr\<close>
  (the interpolated exception text left out).
\<close>

record server_state =
  alerts_collection :: "alert_doc list"
  blocklist_collection :: "blocklist_doc list"
  whitelist_collection :: "whitelist_doc list"
  emitted :: "event list"
  stderr_log :: "string list"

fun update_one :: "('a \<Rightarrow> bool) \<Rightarrow> ('a \<Rightarrow> 'a) \<Rightarrow> 'a list \<Rightarrow> 'a list" where
  "update_one P f [] = []"
| "update_one P f (x # xs) = (if P x then f x # xs else x # update_one P f xs)"

definition check_ip_blocked :: "server_state \<Rightarrow> string \<Rightarrow> bool" where
  "check_ip_blocked s ip =
     (if ip = [] then False
      else find (\<lambda>d. b_ip d = ip \<and> b_is_active d = Some True) (blocklist_collection s) \<noteq> None)"

definition check_ip_whitelisted :: "server_state \<Rightarrow> string \<Rightarrow> bool" where
  "check_ip_whitelisted s ip =
     (if ip = [] then False
      else find (\<lambda>d. w_ip d = ip \<and> w_is_active d = Some True) (whitelist_collection s) \<noteq> None)"

definition timedelta_hours :: "int \<Rightarrow> time" where
  "timedelta_hours h = h * 3600000000"

text \<open>The count of alerts of \<open>ip\<close> in the trailing window, as \<open>should_auto_block\<close> queries it.\<close>

definition window_attack_count :: "config \<Rightarrow> time \<Rightarrow> string \<Rightarrow> server_state \<Rightarrow> int" where
  "window_attack_count cfg now ip s =
     (let cutoff = now - timedelta_hours (AUTO_BLOCK_WINDOW_HOURS cfg)
      in int (length (filter (\<lambda>a. a_src_ip a = ip \<and> a_timestamp a \<ge> cutoff) (alerts_collection s))))"

definition auto_block_reason :: "config \<Rightarrow> int \<Rightarrow> string" where
  "auto_block_reason cfg attack_count =
     ''Auto-blocked after '' @ str_int attack_count @ '' attacks in ''
       @ str_int (AUTO_BLOCK_WINDOW_HOURS cfg) @ '' hour(s)''"

text \<open>
  \<open>should_auto_block\<close> (app.py). It returns its result and the new state. The first
  \<open>emit\<close> raising \<open>TypeError\<close> or \<open>AttributeError\<close> leads to the second attempt with a
  namespace, whose failure is logged; any other exception of the first \<open>emit\<close> reaches
  the outer handler, which logs it, and the function then returns \<open>False\<close>.
\<close>

definition should_auto_block ::
  "config \<Rightarrow> socketio \<Rightarrow> time \<Rightarrow> string \<Rightarrow> server_state \<Rightarrow> bool \<times> server_state" where
  "should_auto_block cfg sio now ip s =
     (if ip = [] \<or> check_ip_whitelisted s ip then (False, s)
      else
        let attack_count = window_attack_count cfg now ip s in
        if attack_count \<ge> AUTO_BLOCK_THRESHOLD cfg then
          (case find (\<lambda>d. b_ip d = ip) (blocklist_collection s) of
             None \<Rightarrow>
               (let block_doc = BlocklistDocument_create ip (auto_block_reason cfg attack_count)
                                  True attack_count now;
                    ev = Ip_blocked (length (blocklist_collection s)) block_doc;
                    s1 = s\<lparr>blocklist_collection := blocklist_collection s @ [block_doc]\<rparr>
                in case emit_default sio ev of
                     Delivered \<Rightarrow> (True, s1\<lparr>emitted := emitted s1 @ [ev]\<rparr>)
                   | Raises_Exception \<Rightarrow>
                       (False, s1\<lparr>stderr_log := stderr_log s1 @ [''Auto-block failed for '' @ ip]\<rparr>)
                   | _ \<Rightarrow>
                       (case emit_namespace sio ev of
                          Delivered \<Rightarrow> (True, s1\<lparr>emitted := emitted s1 @ [ev]\<rparr>)
                        | _ \<Rightarrow>
                          (True, s1\<lparr>stderr_log := stderr_log s1
                                    @ [''SocketIO emit error (non-critical)'']\<rparr>)))
           | Some existing \<Rightarrow>
               if \<not> (case b_is_active existing of None \<Rightarrow> True | Some a \<Rightarrow> a) then
                 (True, s\<lparr>blocklist_collection :=
                            update_one (\<lambda>d. b_ip d = ip)
                              (\<lambda>d. d\<lparr>b_is_active := Some True, b_attack_count := attack_count\<rparr>)
                              (blocklist_collection s)\<rparr>)
               else (False, s))
        else (False, s))"

text \<open>Sample data: the default configuration, a socket whose emits succeed, and a state
  holding five alerts of one address.\<close>

definition default_config :: config where
  "default_config = \<lparr> AUTO_BLOCK_THRESHOLD = 5, AUTO_BLOCK_WINDOW_HOURS = 1 \<rparr>"

definition reliable_socketio :: socketio where
  "reliable_socketio = \<lparr> emit_default = (\<lambda>_. Delivered), emit_namespace = (\<lambda>_. Delivered) \<rparr>"

definition attack_alert :: "string \<Rightarrow> time \<Rightarrow> alert_doc" where
  "attack_alert ip t =
     AlertDocument_create ''SQL Injection'' ''/login'' ip 95 ''/login'' [] ''GET'' ''{}'' ''curl''
       (Some t) ''new'' None [] t"

definition five_alerts_state :: "blocklist_doc list \<Rightarrow> server_state" where
  "five_alerts_state bl =
     \<lparr> alerts_collection = map (attack_alert ''203.0.113.7'') [1, 2, 3, 4, 5],
       blocklist_collection = bl, whitelist_collection = [], emitted = [], stderr_log = [] \<rparr>"

definition manual_block :: "bool \<Rightarrow> blocklist_doc" where
  "manual_block active =
     (BlocklistDocument_create ''203.0.113.7'' ''Manually blocked'' False 0 0)
       \<lparr>b_is_active := Some active\<rparr>"

section \<open>Ingestion parsers\<close>

text \<open>
  The functions of the Python library and of werkzeug that the embedded code calls on
  strings are arguments, collected in one record: \<open>urllib.parse.parse_qs\<close> (with
  \<open>keep_blank_values=True\<close>), \<open>str\<close> of the dictionary it returns, and
  \<open>secure_filename\<close>. A parameter dictionary is the list of its items.
\<close>

type_synonym params = "(string \<times> string list) list"

record library =
  parse_qs :: "string \<Rightarrow> params"
  str_params :: "params \<Rightarrow> string"
  secure_filename :: "string \<Rightarrow> string"

record request_record =
  r_src_ip :: string
  r_dst_ip :: string
  r_method :: string
  r_url :: string
  r_params :: params
  r_user_agent :: string
  r_body :: string
  r_raw :: string

text \<open>
  A packet as pyshark presents it: the fields of its \<open>http\<close> layer that exist, and
  the source and destination of its \<open>ip\<close> layer when it has one.
\<close>

record http_layer =
  h_request_method :: "string option"
  h_host :: "string option"
  h_request_uri :: "string option"
  h_request_full_uri :: "string option"
  h_user_agent :: "string option"
  h_file_data :: "string option"

record packet =
  pkt_http :: "http_layer option"
  pkt_ip :: "(string \<times> string) option"

text \<open>Reading an attribute or a dictionary key that may be missing, with a default
  (\<open>getattr(obj, name, default)\<close>, \<open>d.get(key, default)\<close>).\<close>

definition getattr :: "string option \<Rightarrow> string \<Rightarrow> string" where
  "getattr field dflt = (case field of None \<Rightarrow> dflt | Some v \<Rightarrow> v)"

text \<open>\<open>uri.split('?', 1)\<close> when \<open>'?' in uri\<close>: the part after the first question mark.\<close>

definition query_params :: "library \<Rightarrow> string \<Rightarrow> params" where
  "query_params lib uri =
     (if CHR ''?'' \<in> set uri then parse_qs lib (tl (dropWhile (\<lambda>c. c \<noteq> CHR ''?'') uri)) else [])"

text \<open>The body of the packet loop of \<open>parse_pcap\<close>; \<open>None\<close> when \<open>pkt.http\<close> raises
  and the packet is skipped.\<close>

definition packet_record :: "library \<Rightarrow> packet \<Rightarrow> request_record option" where
  "packet_record lib pkt =
     (case pkt_http pkt of
        None \<Rightarrow> None
      | Some h \<Rightarrow>
          (let method = getattr (h_request_method h) [];
               hst = getattr (h_host h) [];
               uri = getattr (h_request_uri h) [];
               full = (if hst \<noteq> [] \<and> uri \<noteq> [] then ''http://'' @ hst @ uri
                       else case h_request_full_uri h of None \<Rightarrow> [] | Some u \<Rightarrow> u);
               ua = getattr (h_user_agent h) [];
               params = query_params lib uri;
               body = getattr (h_file_data h) []
           in Some \<lparr> r_src_ip = (case pkt_ip pkt of None \<Rightarrow> [] | Some (src, dst) \<Rightarrow> src),
                     r_dst_ip = (case pkt_ip pkt of None \<Rightarrow> [] | Some (src, dst) \<Rightarrow> dst),
                     r_method = method, r_url = full, r_params = params, r_user_agent = ua,
                     r_body = body,
                     r_raw = full @ '' '' @ str_params lib params @ '' '' @ body \<rparr>))"

text \<open>
  \<open>parse_pcap\<close> (parser.py) on the packets that the capture yields for the display
  filter \<open>http.request\<close> (none when the capture cannot be opened: the exception is caught
  and the records so far are returned).
\<close>

definition parse_pcap :: "library \<Rightarrow> packet list \<Rightarrow> request_record list" where
  "parse_pcap lib cap = List.map_filter (packet_record lib) cap"

text \<open>
  The access-log pattern. Each repetition in it is followed by a literal character that
  the repeated class excludes, so the only possible match takes the longest run each time;
  the matcher below does that, left to right. \<open>re.match\<close> anchors at the start only.
\<close>

record log_match =
  g_ip :: string
  g_method :: string
  g_path :: string
  g_ua :: string

definition is_digit :: "char \<Rightarrow> bool" where
  "is_digit c = (let n = (of_char c :: nat) in 48 \<le> n \<and> n \<le> 57)"

definition many :: "(char \<Rightarrow> bool) \<Rightarrow> string \<Rightarrow> (string \<times> string) option" where
  "many P s = Some (takeWhile P s, dropWhile P s)"

definition many1 :: "(char \<Rightarrow> bool) \<Rightarrow> string \<Rightarrow> (string \<times> string) option" where
  "many1 P s = (if takeWhile P s = [] then None else Some (takeWhile P s, dropWhile P s))"

definition literal :: "string \<Rightarrow> string \<Rightarrow> string option" where
  "literal p s = (if startswith s p then Some (drop (length p) s) else None)"

definition non_space :: "char \<Rightarrow> bool" where
  "non_space c = (\<not> is_space c)"

definition dquote :: char where
  "dquote = CHR 0x22"

definition pattern_match :: "string \<Rightarrow> log_match option" where
  "pattern_match line = do {
     (ipg, r1) \<leftarrow> many1 non_space line;
     r2 \<leftarrow> literal '' '' r1;
     (ident, r3) \<leftarrow> many1 non_space r2;
     r4 \<leftarrow> literal '' '' r3;
     (user, r5) \<leftarrow> many1 non_space r4;
     r6 \<leftarrow> literal '' ['' r5;
     (time, r7) \<leftarrow> many1 (\<lambda>c. c \<noteq> CHR '']'') r6;
     r8 \<leftarrow> literal ('']'' @ '' '' @ [dquote]) r7;
     (method, r9) \<leftarrow> many1 non_space r8;
     r10 \<leftarrow> literal '' '' r9;
     (path, r11) \<leftarrow> many1 non_space r10;
     r12 \<leftarrow> literal '' HTTP/'' r11;
     (proto, r13) \<leftarrow> many1 (\<lambda>c. c \<noteq> dquote) r12;
     r14 \<leftarrow> literal ([dquote] @ '' '') r13;
     (status, r15) \<leftarrow> many1 is_digit r14;
     r16 \<leftarrow> literal '' '' r15;
     (size, r17) \<leftarrow> many1 non_space r16;
     r18 \<leftarrow> literal ('' '' @ [dquote]) r17;
     (ref, r19) \<leftarrow> many (\<lambda>c. c \<noteq> dquote) r18;
     r20 \<leftarrow> literal ([dquote] @ '' '' @ [dquote]) r19;
     (ua, r21) \<leftarrow> many (\<lambda>c. c \<noteq> dquote) r20;
     r22 \<leftarrow> literal [dquote] r21;
     Some \<lparr> g_ip = ipg, g_method = method, g_path = path, g_ua = ua \<rparr>
   }"

text \<open>The body of the line loop of \<open>parse_access_log\<close>; \<open>None\<close> when the line is
  skipped (blank, a comment, or not matching the pattern).\<close>

definition line_record :: "library \<Rightarrow> string \<Rightarrow> request_record option" where
  "line_record lib raw_line =
     (let line = strip raw_line
      in if line = [] \<or> startswith line ''#'' then None
         else case pattern_match line of
                None \<Rightarrow> None
              | Some m \<Rightarrow>
                  (let path = g_path m;
                       params = query_params lib path
                   in Some \<lparr> r_src_ip = g_ip m, r_dst_ip = [], r_method = g_method m,
                             r_url = path, r_params = params, r_user_agent = g_ua m,
                             r_body = [], r_raw = path \<rparr>))"

datatype py_error = FileNotFoundError | ValueError string

text \<open>
  \<open>parse_access_log\<close> (parser.py) on the lines of the file, \<open>None\<close> when the file does
  not exist. The diagnostics it writes to \<open>sys.stderr\<close> are left out.
\<close>

definition parse_access_log :: "library \<Rightarrow> string list option \<Rightarrow> py_error + request_record list" where
  "parse_access_log lib file =
     (case file of
        None \<Rightarrow> Inl FileNotFoundError
      | Some lines \<Rightarrow> Inr (List.map_filter (line_record lib) lines))"

text \<open>
  A stand-in for the library that agrees with it on plain input (ASCII, no percent
  escapes, no quotes or backslashes): \<open>parse_qs\<close> splits the fields at \<open>&\<close> and each
  field at its first \<open>=\<close>, collecting the values of a name in order.
\<close>

fun add_value :: "string \<Rightarrow> string \<Rightarrow> params \<Rightarrow> params" where
  "add_value k v [] = [(k, [v])]"
| "add_value k v ((k', vs) # ps) = (if k' = k then (k', vs @ [v]) # ps else (k', vs) # add_value k v ps)"

definition plain_parse_qs :: "string \<Rightarrow> params" where
  "plain_parse_qs q =
     foldl (\<lambda>ps field. add_value (takeWhile (\<lambda>c. c \<noteq> CHR ''='') field)
                                   (drop 1 (dropWhile (\<lambda>c. c \<noteq> CHR ''='') field)) ps)
       [] (filter (\<lambda>field. field \<noteq> []) (split_on CHR ''&'' q))"

fun join :: "string \<Rightarrow> string list \<Rightarrow> string" where
  "join sep [] = []"
| "join sep [x] = x"
| "join sep (x # y # ys) = x @ sep @ join sep (y # ys)"

definition quoted :: "string \<Rightarrow> string" where
  "quoted v = [CHR 0x27] @ v @ [CHR 0x27]"

definition plain_str_params :: "params \<Rightarrow> string" where
  "plain_str_params ps =
     ''{'' @ join '', '' (map (\<lambda>(k, vs). quoted k @ '': ['' @ join '', '' (map quoted vs) @ '']'') ps) @ ''}''"

text \<open>
  \<open>secure_filename\<close> as werkzeug computes it for an ASCII name on a POSIX system: path
  separators become spaces, the words are joined with underscores, every character
  other than a letter, a digit, \<open>_\<close>, \<open>.\<close> and \<open>-\<close> is removed, and dots and
  underscores are stripped from both ends.
\<close>

definition safe_char :: "char \<Rightarrow> bool" where
  "safe_char c =
     (let n = (of_char c :: nat)
      in (48 \<le> n \<and> n \<le> 57) \<or> (65 \<le> n \<and> n \<le> 90) \<or> (97 \<le> n \<and> n \<le> 122)
         \<or> c = CHR ''_'' \<or> c = CHR ''.'' \<or> c = CHR ''-'')"

definition strip_chars :: "string \<Rightarrow> string \<Rightarrow> string" where
  "strip_chars cs s =
     rev (dropWhile (\<lambda>c. c \<in> set cs) (rev (dropWhile (\<lambda>c. c \<in> set cs) s)))"

definition plain_secure_filename :: "string \<Rightarrow> string" where
  "plain_secure_filename name =
     (let spaced = map (\<lambda>c. if c = CHR ''/'' \<or> is_space c then CHR '' '' else c) name;
          joined = join ''_'' (filter (\<lambda>w. w \<noteq> []) (split_on CHR '' '' spaced))
      in strip_chars ''._'' (filter safe_char joined))"

definition plain_library :: library where
  "plain_library = \<lparr> parse_qs = plain_parse_qs, str_params = plain_str_params,
                      secure_filename = plain_secure_filename \<rparr>"

definition sample_log_line :: string where
  "sample_log_line =
     ''198.51.100.9 - - [01/Jan/2024:10:00:00 +0000] '' @ [dquote] @ ''GET /item?id=7 HTTP/1.1''
       @ [dquote] @ '' 200 512 '' @ [dquote] @ ''-'' @ [dquote] @ '' '' @ [dquote] @ ''curl/8.0''
       @ [dquote] @ [CHR 0x0A]"

definition sample_packet :: packet where
  "sample_packet =
     \<lparr> pkt_http = Some \<lparr> h_request_method = Some ''POST'', h_host = Some ''shop.example'',
                      h_request_uri = Some ''/item?id=7'', h_request_full_uri = None,
                      h_user_agent = Some ''curl/8.0'', h_file_data = Some ''qty=2'' \<rparr>,
       pkt_ip = Some (''198.51.100.9'', ''192.0.2.1'') \<rparr>"

definition sample_log_record :: request_record where
  "sample_log_record =
     \<lparr> r_src_ip = ''198.51.100.9'', r_dst_ip = [], r_method = ''GET'', r_url = ''/item?id=7'',
       r_params = [(''id'', [''7''])], r_user_agent = ''curl/8.0'', r_body = [],
       r_raw = ''/item?id=7'' \<rparr>"

section \<open>Path sanitization\<close>

text \<open>
  POSIX paths as \<open>pathlib\<close> parses them: whether the path starts at the root, and its
  components (empty components and \<open>.\<close> are dropped when the string is parsed).
  \<open>resolve\<close> makes the path absolute with the current directory \<open>cwd\<close> (given by its
  components) and removes each \<open>..\<close> together with the component before it, the parent
  of the root being the root. The file system has no symbolic links. The call of the
  operating system behind \<open>resolve\<close> raises \<open>ValueError\<close> for a path with a NUL
  character in one of its components.
\<close>

datatype path = Path (anchored: bool) (parts: "string list")











section \<open>IP geolocation cache\<close>

text \<open>
  A cached geolocation document; every field but the address is read with a default
  (\<open>cached.get\<close>), so each may be missing. Coordinates are real numbers.
\<close>

record geo_doc =
  gd_ip :: string
  gd_country :: "string option"
  gd_city :: "string option"
  gd_latitude :: "real option"
  gd_longitude :: "real option"
  gd_country_code :: "string option"
  gd_last_updated :: "time option"

record geo_data =
  geo_country :: string
  geo_city :: string
  geo_latitude :: "real option"
  geo_longitude :: "real option"
  geo_country_code :: string

text \<open>The JSON object of the geolocation service, by the keys the code reads.\<close>

record api_json =
  j_country_name :: "string option"
  j_city :: "string option"
  j_latitude :: "real option"
  j_longitude :: "real option"
  j_country_code :: "string option"

text \<open>
  What \<open>requests.get\<close> does when it is called: it times out, it raises another
  exception, or it returns a response with a status code and a body (\<open>None\<close> when
  \<open>response.json()\<close> raises).
\<close>

datatype api_outcome = Timeout | Request_error | Response nat "api_json option"

text \<open>The \<open>ip_geolocation\<close> collection, with the failures of its two operations.\<close>

record geo_store =
  ip_geolocation :: "geo_doc list"
  find_one_raises :: bool
  update_one_raises :: bool

definition GEO_CACHE_DAYS :: int where
  "GEO_CACHE_DAYS = 7"

definition microseconds_per_day :: int where
  "microseconds_per_day = 86400000000"

text \<open>\<open>ipaddress.ip_address\<close> accepting the string is the argument \<open>ip_address_ok\<close>.\<close>

definition is_valid_ip :: "(string \<Rightarrow> bool) \<Rightarrow> string \<Rightarrow> bool" where
  "is_valid_ip ip_address_ok ip = (if ip = [] then False else ip_address_ok ip)"

definition cached_geo :: "geo_doc \<Rightarrow> geo_data" where
  "cached_geo cached =
     \<lparr> geo_country = getattr (gd_country cached) ''Unknown'',
       geo_city = getattr (gd_city cached) ''Unknown'',
       geo_latitude = gd_latitude cached,
       geo_longitude = gd_longitude cached,
       geo_country_code = getattr (gd_country_code cached) [] \<rparr>"

definition cache_age_days :: "time \<Rightarrow> geo_doc \<Rightarrow> int" where
  "cache_age_days now cached =
     (now - (case gd_last_updated cached of None \<Rightarrow> now | Some t \<Rightarrow> t)) div microseconds_per_day"

definition api_geo :: "api_json \<Rightarrow> geo_data" where
  "api_geo data =
     \<lparr> geo_country = getattr (j_country_name data) ''Unknown'',
       geo_city = getattr (j_city data) ''Unknown'',
       geo_latitude = j_latitude data,
       geo_longitude = j_longitude data,
       geo_country_code = getattr (j_country_code data) [] \<rparr>"

definition cache_doc :: "string \<Rightarrow> geo_data \<Rightarrow> time \<Rightarrow> geo_doc" where
  "cache_doc ip g now =
     \<lparr> gd_ip = ip, gd_country = Some (geo_country g), gd_city = Some (geo_city g),
       gd_latitude = geo_latitude g, gd_longitude = geo_longitude g,
       gd_country_code = Some (geo_country_code g), gd_last_updated = Some now \<rparr>"

text \<open>\<open>update_one\<close> with \<open>upsert=True\<close> and a document that sets every field.\<close>

definition upsert :: "string \<Rightarrow> geo_doc \<Rightarrow> geo_doc list \<Rightarrow> geo_doc list" where
  "upsert ip doc docs =
     (if find (\<lambda>d. gd_ip d = ip) docs = None then docs @ [doc]
      else update_one (\<lambda>d. gd_ip d = ip) (\<lambda>d. doc) docs)"

text \<open>
  \<open>get_ip_geolocation\<close> (ip_services.py). The arguments \<open>mongo_db\<close> and
  \<open>current_app_db\<close> are the database passed in and the one of the running application
  (\<open>None\<close> when there is none). The result is the returned dictionary (\<open>None\<close> for
  Python's \<open>None\<close>), whether the geolocation service was called, and the database
  afterwards.
\<close>

definition get_ip_geolocation ::
  "(string \<Rightarrow> bool) \<Rightarrow> api_outcome \<Rightarrow> time \<Rightarrow> string \<Rightarrow> geo_store option \<Rightarrow> geo_store option
     \<Rightarrow> geo_data option \<times> bool \<times> geo_store option" where
  "get_ip_geolocation ip_address_ok api now ip mongo_db current_app_db =
     (if \<not> is_valid_ip ip_address_ok ip then (None, False, mongo_db)
      else
        case (case mongo_db of None \<Rightarrow> current_app_db | Some db \<Rightarrow> Some db) of
          None \<Rightarrow> (None, False, None)
        | Some db \<Rightarrow>
            if find_one_raises db then (None, False, Some db)
            else
              let cached = find (\<lambda>d. gd_ip d = ip) (ip_geolocation db) in
              case (case cached of
                      None \<Rightarrow> None
                    | Some c \<Rightarrow> if cache_age_days now c < GEO_CACHE_DAYS then Some (cached_geo c)
                                else None) of
                Some fresh \<Rightarrow> (Some fresh, False, Some db)
              | None \<Rightarrow>
                 (case api of
                    Timeout \<Rightarrow> (map_option cached_geo cached, True, Some db)
                  | Request_error \<Rightarrow> (map_option cached_geo cached, True, Some db)
                  | Response status_code body \<Rightarrow>
                      if status_code = 200 then
                        (case body of
                           None \<Rightarrow> (map_option cached_geo cached, True, Some db)
                         | Some data \<Rightarrow>
                             if update_one_raises db
                             then (map_option cached_geo cached, True, Some db)
                             else (Some (api_geo data), True,
                                   Some (db\<lparr>ip_geolocation :=
                                           upsert ip (cache_doc ip (api_geo data) now)
                                             (ip_geolocation db)\<rparr>)))
                      else if status_code = 429
                      then (map_option cached_geo cached, True, Some db)
                      else (None, True, Some db)))"

definition stale_geo_doc :: geo_doc where
  "stale_geo_doc =
     \<lparr> gd_ip = ''8.8.8.8'', gd_country = Some ''United States'', gd_city = Some ''Mountain View'',
       gd_latitude = Some 37, gd_longitude = Some (-122), gd_country_code = Some ''US'',
       gd_last_updated = Some 0 \<rparr>"

definition stale_geo_store :: geo_store where
  "stale_geo_store =
     \<lparr> ip_geolocation = [stale_geo_doc], find_one_raises = False, update_one_raises = False \<rparr>"

section \<open>Rate limiter of the AI service\<close>

text \<open>
  The limiter fields of \<open>GeminiThreatIntelligence\<close>. Clock readings (\<open>time.time()\<close>)
  are real numbers of seconds; \<open>time.sleep\<close> lasts exactly as long as asked, so the
  reading after the sleep is the reading before plus the sleep time.
\<close>

record limiter =
  request_count :: int
  request_window_start :: real

text \<open>
  \<open>_check_rate_limit\<close> (services/gemini_service.py) at the clock reading
  \<open>current_time\<close>: the time slept and the fields afterwards.
\<close>

definition check_rate_limit :: "int \<Rightarrow> real \<Rightarrow> limiter \<Rightarrow> real \<times> limiter" where
  "check_rate_limit RATE_LIMIT_PER_MINUTE current_time st =
     (let st1 = (if current_time - request_window_start st \<ge> 60
                 then st\<lparr>request_count := 0, request_window_start := current_time\<rparr>
                 else st)
      in if request_count st1 \<ge> RATE_LIMIT_PER_MINUTE then
           (let sleep_time = 60 - (current_time - request_window_start st1)
            in if sleep_time > 0
               then (sleep_time,
                     st1\<lparr>request_count := 0 + 1,
                         request_window_start := current_time + sleep_time\<rparr>)
               else (0, st1\<lparr>request_count := request_count st1 + 1\<rparr>))
         else (0, st1\<lparr>request_count := request_count st1 + 1\<rparr>))"

text \<open>A sequence of calls, each entering the limiter at the given clock reading: the
  times slept, in order, and the fields after the last call.\<close>

fun run_calls :: "int \<Rightarrow> limiter \<Rightarrow> real list \<Rightarrow> real list \<times> limiter" where
  "run_calls limit st [] = ([], st)"
| "run_calls limit st (t # ts) =
     (case check_rate_limit limit t st of
        (slept, st') \<Rightarrow> (case run_calls limit st' ts of (rest, st'') \<Rightarrow> (slept # rest, st'')))"

section \<open>Upload processing\<close>

text \<open>
  An uploaded file is seen through the two readers of the parsers: the packets that
  pyshark yields from it and the lines that reading it as text yields. The files on disk
  are a map from path to content. The detection engine \<open>run_all\<close> is not part of the
  sources at hand and is an argument: from a record and the correlation list of the
  upload it gives the findings (label and confidence) and the correlation list afterwards.
  The clock does not advance during one request.
\<close>

record file_content =
  pyshark_packets :: "packet list"
  text_lines :: "string list"

type_synonym filesystem = "string \<rightharpoonup> file_content"

record uploaded_file =
  f_filename :: string
  f_content_length :: int
  f_content :: file_content

datatype response = Json_error nat string | Upload_success nat

definition UPLOAD_FOLDER :: string where
  "UPLOAD_FOLDER = ''uploads''"

definition MAX_CONTENT_LENGTH :: int where
  "MAX_CONTENT_LENGTH = 100 * 1024 * 1024"

definition valid_extensions :: "string list" where
  "valid_extensions = [''pcap'', ''pcapng'', ''log'', ''txt'']"

definition file_extension :: "string \<Rightarrow> string" where
  "file_extension name = last (split_on CHR ''.'' (lower name))"

text \<open>One finding of the inner loop of \<open>upload\<close>: the alert is inserted, noted for
  the notifications, and the auto-block evaluation runs.\<close>

definition process_finding ::
  "config \<Rightarrow> socketio \<Rightarrow> library \<Rightarrow> time \<Rightarrow> request_record
     \<Rightarrow> alert_summary list \<times> server_state \<Rightarrow> string \<times> int \<Rightarrow> alert_summary list \<times> server_state" where
  "process_finding cfg sio lib now r acc finding =
     (case acc of (new_alerts, s) \<Rightarrow>
      case finding of (note, conf) \<Rightarrow>
        (let src_ip = r_src_ip r;
             priority = get_priority conf;
             alert_doc = AlertDocument_create note (r_url r) src_ip conf (r_raw r) (r_dst_ip r)
                           (r_method r) (str_params lib (r_params r)) (r_user_agent r)
                           None ''new'' (Some priority) [] now;
             s1 = s\<lparr>alerts_collection := alerts_collection s @ [alert_doc]\<rparr>;
             summary = \<lparr> n_id = length (alerts_collection s), n_attack = note,
                         n_confidence = conf, n_priority = priority, n_src_ip = src_ip \<rparr>
         in (new_alerts @ [summary], snd (should_auto_block cfg sio now src_ip s1))))"

text \<open>One record of the outer loop.\<close>

definition process_record ::
  "config \<Rightarrow> socketio \<Rightarrow> library \<Rightarrow> (request_record \<Rightarrow> 'l list \<Rightarrow> (string \<times> int) list \<times> 'l list)
     \<Rightarrow> time \<Rightarrow> 'l list \<times> alert_summary list \<times> server_state \<Rightarrow> request_record
     \<Rightarrow> 'l list \<times> alert_summary list \<times> server_state" where
  "process_record cfg sio lib run_all now acc r =
     (case acc of (recent_login_attempts, new_alerts, s) \<Rightarrow>
        (let src_ip = r_src_ip r
         in if check_ip_whitelisted s src_ip \<or> check_ip_blocked s src_ip
            then (recent_login_attempts, new_alerts, s)
            else case run_all r recent_login_attempts of
                   (alerts, recent_login_attempts') \<Rightarrow>
                     (case foldl (process_finding cfg sio lib now r) (new_alerts, s) alerts of
                        (new_alerts', s') \<Rightarrow> (recent_login_attempts', new_alerts', s'))))"

definition process_records ::
  "config \<Rightarrow> socketio \<Rightarrow> library \<Rightarrow> (request_record \<Rightarrow> 'l list \<Rightarrow> (string \<times> int) list \<times> 'l list)
     \<Rightarrow> time \<Rightarrow> 'l list \<times> alert_summary list \<times> server_state \<Rightarrow> request_record list
     \<Rightarrow> 'l list \<times> alert_summary list \<times> server_state" where
  "process_records cfg sio lib run_all now acc records =
     foldl (process_record cfg sio lib run_all now) acc records"

text \<open>
  The notifications after the loop. The result is \<open>False\<close> when an \<open>emit\<close> raises an
  exception that the inner handler does not catch, which ends the request with status 500.
\<close>

fun emit_new_alerts :: "socketio \<Rightarrow> alert_summary list \<Rightarrow> server_state \<Rightarrow> bool \<times> server_state" where
  "emit_new_alerts sio [] s = (True, s)"
| "emit_new_alerts sio (alert # rest) s =
     (if n_confidence alert \<ge> 80 then
        (case emit_default sio (New_alert alert) of
           Delivered \<Rightarrow> emit_new_alerts sio rest (s\<lparr>emitted := emitted s @ [New_alert alert]\<rparr>)
         | Raises_Exception \<Rightarrow>
             (False, s\<lparr>stderr_log := stderr_log s @ [''Upload error'']\<rparr>)
         | _ \<Rightarrow>
             (case emit_namespace sio (New_alert alert) of
                Delivered \<Rightarrow> emit_new_alerts sio rest (s\<lparr>emitted := emitted s @ [New_alert alert]\<rparr>)
              | _ \<Rightarrow> emit_new_alerts sio rest
                      (s\<lparr>stderr_log := stderr_log s @ [''SocketIO emit error (non-critical)'']\<rparr>)))
      else emit_new_alerts sio rest s)"

definition upload_path :: "library \<Rightarrow> uploaded_file \<Rightarrow> string" where
  "upload_path lib f = UPLOAD_FOLDER @ ''/'' @ secure_filename lib (f_filename f)"

text \<open>The parsing step of \<open>upload\<close>: the parser is chosen by the extension and reads the
  saved file.\<close>

definition parse_saved_file ::
  "library \<Rightarrow> string \<Rightarrow> filesystem \<Rightarrow> string \<Rightarrow> py_error + request_record list" where
  "parse_saved_file lib ext fs fname =
     (if ext \<in> set [''pcap'', ''pcapng'']
      then Inr (parse_pcap lib (case fs fname of None \<Rightarrow> [] | Some c \<Rightarrow> pyshark_packets c))
      else parse_access_log lib (map_option text_lines (fs fname)))"

text \<open>The processing step of \<open>upload\<close>: the record loop, the notifications and the
  response.\<close>

definition process_upload_records ::
  "config \<Rightarrow> socketio \<Rightarrow> library \<Rightarrow> (request_record \<Rightarrow> 'l list \<Rightarrow> (string \<times> int) list \<times> 'l list)
     \<Rightarrow> time \<Rightarrow> request_record list \<Rightarrow> server_state \<Rightarrow> response \<times> server_state" where
  "process_upload_records cfg sio lib run_all now records s =
     (case process_records cfg sio lib run_all now ([], [], s) records of
        (recent_login_attempts, new_alerts, s1) \<Rightarrow>
          (case emit_new_alerts sio new_alerts s1 of
             (True, s2) \<Rightarrow> (Upload_success (length new_alerts), s2)
           | (False, s2) \<Rightarrow> (Json_error 500 ''Error processing file'', s2)))"

text \<open>
  \<open>upload\<close> (app.py). The request carries the file of the form field \<open>file\<close>, if any.
  Saving fails when the secured name is empty (the target is then the upload directory
  itself); other failures of the disk are not modelled. The result is the response, the
  files on disk and the server state afterwards.
\<close>

definition upload ::
  "config \<Rightarrow> socketio \<Rightarrow> library \<Rightarrow> (request_record \<Rightarrow> 'l list \<Rightarrow> (string \<times> int) list \<times> 'l list)
     \<Rightarrow> time \<Rightarrow> uploaded_file option \<Rightarrow> filesystem \<Rightarrow> server_state
     \<Rightarrow> response \<times> filesystem \<times> server_state" where
  "upload cfg sio lib run_all now request_file fs s =
     (case request_file of
        None \<Rightarrow> (Json_error 400 ''No file provided'', fs, s)
      | Some f \<Rightarrow>
          if f_filename f = [] then (Json_error 400 ''No file provided'', fs, s)
          else if f_content_length f \<noteq> 0 \<and> f_content_length f > MAX_CONTENT_LENGTH
          then (Json_error 400 ''File size exceeds 100MB'', fs, s)
          else if secure_filename lib (f_filename f) = []
          then (Json_error 500 ''Cannot save file'', fs,
                s\<lparr>stderr_log := stderr_log s @ [''Error saving file'']\<rparr>)
          else
            let fname = upload_path lib f;
                fs1 = fs(fname \<mapsto> f_content f);
                ext = file_extension (f_filename f)
            in if ext \<notin> set valid_extensions
               then (Json_error 400 ''Invalid file type. Allowed: pcap, pcapng, log, txt'',
                     fs1(fname := None), s)
               else
                 case parse_saved_file lib ext fs1 fname of
                   Inl e \<Rightarrow> (Json_error 500 ''Error parsing file'', fs1,
                             s\<lparr>stderr_log := stderr_log s @ [''Error parsing file'']\<rparr>)
                 | Inr records \<Rightarrow>
                     if records = [] then (Json_error 400 ''No records found in file'', fs1, s)
                     else
                       case process_upload_records cfg sio lib run_all now records s of
                         (resp, s2) \<Rightarrow> (resp, fs1, s2))"

text \<open>Sample data for the upload: a detector that reports one finding for every record,
  an empty server, and three uploads.\<close>

definition one_finding :: "request_record \<Rightarrow> nat list \<Rightarrow> (string \<times> int) list \<times> nat list" where
  "one_finding r attempts = ([(''SQL Injection'', 95)], attempts)"

definition empty_state :: server_state where
  "empty_state =
     \<lparr> alerts_collection = [], blocklist_collection = [], whitelist_collection = [],
       emitted = [], stderr_log = [] \<rparr>"

definition empty_disk :: filesystem where
  "empty_disk = Map.empty"

definition comment_only_upload :: uploaded_file where
  "comment_only_upload =
     \<lparr> f_filename = ''access.log'', f_content_length = 0,
       f_content = \<lparr> pyshark_packets = [], text_lines = [''# nothing here''] \<rparr> \<rparr>"

definition oversized_upload :: uploaded_file where
  "oversized_upload =
     \<lparr> f_filename = ''access.log'', f_content_length = 200000000,
       f_content = \<lparr> pyshark_packets = [], text_lines = [sample_log_line] \<rparr> \<rparr>"

definition executable_upload :: uploaded_file where
  "executable_upload =
     \<lparr> f_filename = ''tool.exe'', f_content_length = 0,
       f_content = \<lparr> pyshark_packets = [], text_lines = [] \<rparr> \<rparr>"

definition dotdot_upload :: uploaded_file where
  "dotdot_upload =
     \<lparr> f_filename = ''..'', f_content_length = 0,
       f_content = \<lparr> pyshark_packets = [], text_lines = [sample_log_line] \<rparr> \<rparr>"

definition log_upload :: uploaded_file where
  "log_upload =
     \<lparr> f_filename = ''access.log'', f_content_length = 0,
       f_content = \<lparr> pyshark_packets = [], text_lines = [sample_log_line] \<rparr> \<rparr>"





section \<open>Theorems\<close>

text \<open>
  C1: an alert created without an explicit priority gets the priority derived from its
  confidence: 90 to 100 critical, 75 to 89 high, 60 to 74 medium, 0 to 59 low, switching
  exactly at 89/90, 74/75 and 59/60; the document helper and the server's
  \<open>get_priority\<close> compute the same derivation.
\<close>

theorem alert_priority_derivation:
  "a_priority (AlertDocument_create attack_type url src_ip c raw dst_ip http_method params
       user_agent timestamp status None notes now) = get_priority c
   \<and> (90 \<le> c \<and> c \<le> 100 \<longrightarrow> get_priority c = ''critical'')
   \<and> (75 \<le> c \<and> c \<le> 89 \<longrightarrow> get_priority c = ''high'')
   \<and> (60 \<le> c \<and> c \<le> 74 \<longrightarrow> get_priority c = ''medium'')
   \<and> (0 \<le> c \<and> c \<le> 59 \<longrightarrow> get_priority c = ''low'')
   \<and> get_priority 89 = ''high'' \<and> get_priority 90 = ''critical''
   \<and> get_priority 74 = ''medium'' \<and> get_priority 75 = ''high''
   \<and> get_priority 59 = ''low'' \<and> get_priority 60 = ''medium''"
  by (simp add: AlertDocument_create_def get_priority_def)

theorem alert_priority_derivation_witness:
  "a_priority (AlertDocument_create ''SQL Injection'' ''/login'' ''10.0.0.5'' 95 ''/login''
       [] ''GET'' ''{}'' ''curl'' None ''new'' None [] 1000) = ''critical''
   \<and> a_priority (AlertDocument_create ''SQL Injection'' ''/login'' ''10.0.0.5'' 80 ''/login''
       [] ''GET'' ''{}'' ''curl'' None ''new'' None [] 1000) = ''high''
   \<and> a_priority (AlertDocument_create ''SQL Injection'' ''/login'' ''10.0.0.5'' 60 ''/login''
       [] ''GET'' ''{}'' ''curl'' None ''new'' None [] 1000) = ''medium''
   \<and> a_priority (AlertDocument_create ''SQL Injection'' ''/login'' ''10.0.0.5'' 59 ''/login''
       [] ''GET'' ''{}'' ''curl'' None ''new'' None [] 1000) = ''low''"
  using alert_priority_derivation [of "''SQL Injection''" "''/login''" "''10.0.0.5''" 95
      "''/login''" "[]" "''GET''" "''{}''" "''curl''" None "''new''" "[]" 1000]
    alert_priority_derivation [of "''SQL Injection''" "''/login''" "''10.0.0.5''" 80
      "''/login''" "[]" "''GET''" "''{}''" "''curl''" None "''new''" "[]" 1000]
    alert_priority_derivation [of "''SQL Injection''" "''/login''" "''10.0.0.5''" 60
      "''/login''" "[]" "''GET''" "''{}''" "''curl''" None "''new''" "[]" 1000]
    alert_priority_derivation [of "''SQL Injection''" "''/login''" "''10.0.0.5''" 59
      "''/login''" "[]" "''GET''" "''{}''" "''curl''" None "''new''" "[]" 1000]
  by simp

text \<open>
  C7: for a file larger than the 24-byte header, the fallback of
  \<open>count_packets_in_pcap\<close> (reached when the three tool runs give nothing) is
  \<open>min (max 1 ((file_size - 24) div 128)) 1000000\<close>, and the inline estimate of
  \<open>stop_capture\<close> (taken when the immediate count is 0) is
  \<open>min (max 1 ((file_size - 24) div 64)) 1000000\<close>, in integer arithmetic.
\<close>

theorem packet_estimates_divisors:
  assumes "file_size > 24"
    and "tshark_fields_count t1 = None"
    and "tshark_count_count t2 = None"
    and "tcpdump_count t3 = None"
  shows "count_packets_in_pcap True (Some file_size) t1 t2 t3
           = min (max 1 ((file_size - 24) div 128)) 1000000
       \<and> stop_capture_packet_count file_size 0
           = min (max 1 ((file_size - 24) div 64)) 1000000"
  using assms by (simp add: count_packets_in_pcap_def stop_capture_packet_count_def Let_def)

theorem packet_estimates_divisors_witness:
  "(1048::int) > 24
   \<and> tshark_fields_count Raised = None
   \<and> tshark_count_count (Completed 1 [] []) = None
   \<and> tcpdump_count (Completed 0 [] []) = None
   \<and> count_packets_in_pcap True (Some 1048) Raised (Completed 1 [] []) (Completed 0 [] []) = 8
   \<and> stop_capture_packet_count 1048 0 = 16"
proof -
  have h0: "(1048::int) > 24" by simp
  have h1: "tshark_fields_count Raised = None" by (simp add: tshark_fields_count_def)
  have h2: "tshark_count_count (Completed 1 [] []) = None" by (simp add: tshark_count_count_def)
  have h3: "tcpdump_count (Completed 0 [] []) = None" by (simp add: tcpdump_count_def)
  show ?thesis
    using packet_estimates_divisors [OF h0 h1 h2 h3] h1 h2 h3 by simp
qed


subsection \<open>Auto-block evaluation\<close>

lemma length_update_one: "length (update_one P f xs) = length xs"
  by (induction xs) auto

lemma filter_update_one:
  "(\<And>x. Q (f x) = Q x) \<Longrightarrow> length (filter Q (update_one P f xs)) = length (filter Q xs)"
  by (induction xs) auto

lemma find_update_one:
  "(\<And>x. P x \<Longrightarrow> P (f x)) \<Longrightarrow> find P (update_one P f xs) = map_option f (find P xs)"
  by (induction xs) auto

lemma find_Some_filter: "find P xs = Some e \<Longrightarrow> 1 \<le> length (filter P xs)"
  by (induction xs) (auto split: if_splits)

lemma find_None_filter: "find P xs = None \<Longrightarrow> filter P xs = []"
  by (induction xs) (auto split: if_splits)

text \<open>
  C2: for a non-empty, non-whitelisted address whose alert count in the trailing window
  reaches the threshold, \<open>should_auto_block\<close> appends an entry with
  \<open>auto_blocked = True\<close> and the computed count when the address has no entry,
  reactivates an inactive entry and refreshes its count, and changes nothing when the
  entry is active; the number of entries of the address never grows beyond one entry
  that was not there before.
\<close>

theorem auto_block_threshold_cases:
  assumes "ip \<noteq> []" and "\<not> check_ip_whitelisted s ip"
    and "window_attack_count cfg now ip s \<ge> AUTO_BLOCK_THRESHOLD cfg"
  shows
    "(find (\<lambda>d. b_ip d = ip) (blocklist_collection s) = None \<longrightarrow>
        blocklist_collection (snd (should_auto_block cfg sio now ip s))
          = blocklist_collection s @
              [\<lparr> b_ip = ip, b_reason = auto_block_reason cfg (window_attack_count cfg now ip s),
                 b_auto_blocked = True, b_attack_count = window_attack_count cfg now ip s,
                 b_is_active = Some True, b_created_at = now \<rparr>])
     \<and> (\<forall>e. find (\<lambda>d. b_ip d = ip) (blocklist_collection s) = Some e \<and> b_is_active e = Some False \<longrightarrow>
           fst (should_auto_block cfg sio now ip s)
           \<and> find (\<lambda>d. b_ip d = ip) (blocklist_collection (snd (should_auto_block cfg sio now ip s)))
               = Some (e\<lparr>b_is_active := Some True,
                         b_attack_count := window_attack_count cfg now ip s\<rparr>)
           \<and> length (blocklist_collection (snd (should_auto_block cfg sio now ip s)))
               = length (blocklist_collection s))
     \<and> (\<forall>e. find (\<lambda>d. b_ip d = ip) (blocklist_collection s) = Some e \<and> b_is_active e = Some True \<longrightarrow>
           should_auto_block cfg sio now ip s = (False, s))
     \<and> length (filter (\<lambda>d. b_ip d = ip) (blocklist_collection (snd (should_auto_block cfg sio now ip s))))
         = max 1 (length (filter (\<lambda>d. b_ip d = ip) (blocklist_collection s)))"
proof (cases "find (\<lambda>d. b_ip d = ip) (blocklist_collection s)")
  case None
  have "blocklist_collection (snd (should_auto_block cfg sio now ip s))
          = blocklist_collection s @
              [BlocklistDocument_create ip (auto_block_reason cfg (window_attack_count cfg now ip s))
                 True (window_attack_count cfg now ip s) now]"
    using assms None
    by (simp add: should_auto_block_def Let_def split: emit_outcome.split)
  then show ?thesis
    using None by (simp add: BlocklistDocument_create_def find_None_filter)
next
  case (Some e)
  let ?n = "window_attack_count cfg now ip s"
  let ?upd = "\<lambda>d. d\<lparr>b_is_active := Some True, b_attack_count := ?n\<rparr>"
  show ?thesis
  proof (cases "case b_is_active e of None \<Rightarrow> True | Some a \<Rightarrow> a")
    case True
    then have "should_auto_block cfg sio now ip s = (False, s)"
      using assms Some by (simp add: should_auto_block_def Let_def)
    then show ?thesis
      using Some True find_Some_filter [OF Some] by (auto simp: max_def)
  next
    case False
    then have r: "should_auto_block cfg sio now ip s
        = (True, s\<lparr>blocklist_collection :=
                      update_one (\<lambda>d. b_ip d = ip) ?upd (blocklist_collection s)\<rparr>)"
      using assms Some by (simp add: should_auto_block_def Let_def)
    have f: "find (\<lambda>d. b_ip d = ip) (update_one (\<lambda>d. b_ip d = ip) ?upd (blocklist_collection s))
               = Some (?upd e)"
      using Some by (simp add: find_update_one)
    have c: "length (filter (\<lambda>d. b_ip d = ip)
                 (update_one (\<lambda>d. b_ip d = ip) ?upd (blocklist_collection s)))
               = length (filter (\<lambda>d. b_ip d = ip) (blocklist_collection s))"
      by (rule filter_update_one) simp
    show ?thesis
      using Some False r f c find_Some_filter [OF Some]
      by (auto simp: length_update_one max_def)
  qed
qed


lemmas sample_defs = five_alerts_state_def default_config_def reliable_socketio_def
  attack_alert_def manual_block_def AlertDocument_create_def BlocklistDocument_create_def
  check_ip_whitelisted_def check_ip_blocked_def window_attack_count_def timedelta_hours_def

theorem auto_block_threshold_cases_witness:
  "blocklist_collection (snd (should_auto_block default_config reliable_socketio 10
       ''203.0.113.7'' (five_alerts_state [])))
     = [\<lparr> b_ip = ''203.0.113.7'', b_reason = auto_block_reason default_config 5,
          b_auto_blocked = True, b_attack_count = 5, b_is_active = Some True, b_created_at = 10 \<rparr>]
   \<and> find (\<lambda>d. b_ip d = ''203.0.113.7'')
        (blocklist_collection (snd (should_auto_block default_config reliable_socketio 10
           ''203.0.113.7'' (five_alerts_state [manual_block False]))))
       = Some ((manual_block False)\<lparr>b_is_active := Some True, b_attack_count := 5\<rparr>)
   \<and> should_auto_block default_config reliable_socketio 10 ''203.0.113.7''
        (five_alerts_state [manual_block True]) = (False, five_alerts_state [manual_block True])"
proof -
  have ip: "''203.0.113.7'' \<noteq> []" by simp
  have wl: "\<not> check_ip_whitelisted (five_alerts_state bl) ''203.0.113.7''" for bl
    by (simp add: sample_defs)
  have n: "window_attack_count default_config 10 ''203.0.113.7'' (five_alerts_state bl) = 5" for bl
    by (simp add: sample_defs)
  have th: "window_attack_count default_config 10 ''203.0.113.7'' (five_alerts_state bl)
              \<ge> AUTO_BLOCK_THRESHOLD default_config" for bl
    by (simp add: n) (simp add: default_config_def)
  have none: "find (\<lambda>d. b_ip d = ''203.0.113.7'') (blocklist_collection (five_alerts_state [])) = None"
    by (simp add: five_alerts_state_def)
  have inact: "find (\<lambda>d. b_ip d = ''203.0.113.7'')
                 (blocklist_collection (five_alerts_state [manual_block False])) = Some (manual_block False)
               \<and> b_is_active (manual_block False) = Some False"
    by (simp add: five_alerts_state_def manual_block_def BlocklistDocument_create_def)
  have act: "find (\<lambda>d. b_ip d = ''203.0.113.7'')
                 (blocklist_collection (five_alerts_state [manual_block True])) = Some (manual_block True)
               \<and> b_is_active (manual_block True) = Some True"
    by (simp add: five_alerts_state_def manual_block_def BlocklistDocument_create_def)
  show ?thesis
    using auto_block_threshold_cases [OF ip wl th, of "[]" reliable_socketio]
      auto_block_threshold_cases [OF ip wl th, of "[manual_block False]" reliable_socketio]
      auto_block_threshold_cases [OF ip wl th, of "[manual_block True]" reliable_socketio]
      none inact act
    by (simp add: n) (simp add: five_alerts_state_def)
qed

text \<open>
  C3: every block state change of the auto-block policy, creation and reactivation alike,
  broadcasts \<open>ip_blocked\<close>. The reactivation branch of \<open>should_auto_block\<close> does
  not: with five alerts in the window and an inactive entry, the entry is reactivated,
  the function returns \<open>True\<close>, and no event is emitted although both emits would
  succeed.
\<close>

theorem auto_block_reactivation_emits_nothing:
  "should_auto_block default_config reliable_socketio 10 ''203.0.113.7''
       (five_alerts_state [manual_block False])
     = (True, (five_alerts_state [(manual_block False)\<lparr>b_is_active := Some True, b_attack_count := 5\<rparr>]))
   \<and> emitted (snd (should_auto_block default_config reliable_socketio 10 ''203.0.113.7''
        (five_alerts_state [manual_block False]))) = []"
  by (simp add: should_auto_block_def sample_defs Let_def)


subsection \<open>Raw field of the parsed records\<close>

lemma map_filter_mem: "r \<in> set (List.map_filter f xs) \<Longrightarrow> \<exists>x \<in> set xs. f x = Some r"
  by (auto simp: List.map_filter_def)

lemma packet_record_raw:
  "packet_record lib pkt = Some r \<Longrightarrow>
     r_raw r = r_url r @ '' '' @ str_params lib (r_params r) @ '' '' @ r_body r"
  by (auto simp: packet_record_def Let_def split: option.splits)

lemma line_record_raw: "line_record lib l = Some r \<Longrightarrow> r_raw r = r_url r \<and> r_body r = []"
  by (auto simp: line_record_def Let_def split: option.splits if_splits)

text \<open>
  C5 as stated: the records of both parsers have a raw field concatenating URL,
  parameters and body. A record of the access-log parser refutes it: for one request
  line with a query string, raw is the request path alone.
\<close>

theorem access_log_raw_counterexample:
  "parse_access_log plain_library (Some [sample_log_line]) = Inr [sample_log_record]
   \<and> r_raw sample_log_record
       \<noteq> r_url sample_log_record @ '' '' @ str_params plain_library (r_params sample_log_record)
           @ '' '' @ r_body sample_log_record"
  by code_simp

text \<open>
  C5 amended: every record of \<open>parse_pcap\<close> has raw equal to its URL, a space, the
  rendered parameter dictionary, a space and its body; every record of
  \<open>parse_access_log\<close> has raw equal to its URL (the request path with its query string)
  and an empty body.
\<close>

theorem parser_raw_fields:
  "(\<forall>r \<in> set (parse_pcap lib cap).
       r_raw r = r_url r @ '' '' @ str_params lib (r_params r) @ '' '' @ r_body r)
   \<and> (\<forall>rs. parse_access_log lib (Some lines) = Inr rs \<longrightarrow>
         (\<forall>r \<in> set rs. r_raw r = r_url r \<and> r_body r = []))"
proof -
  have "r_raw r = r_url r @ '' '' @ str_params lib (r_params r) @ '' '' @ r_body r"
    if "r \<in> set (parse_pcap lib cap)" for r
    using map_filter_mem [OF that [unfolded parse_pcap_def]] packet_record_raw by blast
  moreover have "r_raw r = r_url r \<and> r_body r = []"
    if "r \<in> set (List.map_filter (line_record lib) lines)" for r
    using map_filter_mem [OF that] line_record_raw by blast
  ultimately show ?thesis
    by (simp add: parse_access_log_def)
qed

theorem parser_raw_fields_witness:
  "hd (parse_pcap plain_library [sample_packet]) \<in> set (parse_pcap plain_library [sample_packet])
   \<and> r_raw (hd (parse_pcap plain_library [sample_packet]))
       = r_url (hd (parse_pcap plain_library [sample_packet])) @ '' ''
           @ str_params plain_library (r_params (hd (parse_pcap plain_library [sample_packet])))
           @ '' '' @ r_body (hd (parse_pcap plain_library [sample_packet]))
   \<and> parse_access_log plain_library (Some [sample_log_line]) = Inr [sample_log_record]
   \<and> sample_log_record \<in> set [sample_log_record]
   \<and> r_raw sample_log_record = r_url sample_log_record
   \<and> r_body sample_log_record = []"
proof -
  have m: "hd (parse_pcap plain_library [sample_packet]) \<in> set (parse_pcap plain_library [sample_packet])"
    by code_simp
  have l: "parse_access_log plain_library (Some [sample_log_line]) = Inr [sample_log_record]"
    by code_simp
  show ?thesis
    using parser_raw_fields [of plain_library "[sample_packet]" "[sample_log_line]"] m l
    by simp
qed


subsection \<open>Path sanitization\<close>





















subsection \<open>Geolocation fallback\<close>

text \<open>
  With a cache entry of seven days or more, the service is called, and a timeout, another
  exception, status 429 or an unreadable body of a 200 response give the cached value.
\<close>

lemma geolocation_stale_fallback:
  assumes "is_valid_ip ok ip" and "\<not> find_one_raises db"
    and "find (\<lambda>d. gd_ip d = ip) (ip_geolocation db) = Some c"
    and "cache_age_days now c \<ge> GEO_CACHE_DAYS"
    and "api = Timeout \<or> api = Request_error \<or> api = Response 429 body \<or> api = Response 200 None"
  shows "get_ip_geolocation ok api now ip (Some db) app_db = (Some (cached_geo c), True, Some db)"
  using assms by (auto simp: get_ip_geolocation_def Let_def)

text \<open>
  C4: with a cache entry older than seven days, every failure of the refresh, any
  non-success status included, still returns the stale value. For a ten-day-old entry and
  a response with status 500 the service is called and \<open>get_ip_geolocation\<close> returns
  \<open>None\<close>, where status 429 on the same input returns the cached value.
\<close>

theorem geolocation_server_error_drops_stale_value:
  "get_ip_geolocation (\<lambda>ip. True) (Response 500 None) (10 * microseconds_per_day) ''8.8.8.8''
       (Some stale_geo_store) None
     = (None, True, Some stale_geo_store)
   \<and> get_ip_geolocation (\<lambda>ip. True) (Response 429 None) (10 * microseconds_per_day) ''8.8.8.8''
       (Some stale_geo_store) None
     = (Some (cached_geo stale_geo_doc), True, Some stale_geo_store)"
  by (simp add: get_ip_geolocation_def is_valid_ip_def stale_geo_store_def stale_geo_doc_def
      cache_age_days_def GEO_CACHE_DAYS_def microseconds_per_day_def Let_def)

subsection \<open>Rate limiter\<close>

text \<open>
  C8 as stated: exactly \<open>RATE_LIMIT_PER_MINUTE\<close> calls pass without blocking in any
  60-second window. With a budget of 2 and the window started at 0, four calls at 58, 59,
  60 and 61 seconds all pass without sleeping: the counter is reset when the window
  expires at 60.
\<close>

theorem rate_limit_sliding_window_counterexample:
  "run_calls 2 \<lparr>request_count = 0, request_window_start = 0\<rparr> [58, 59, 60, 61]
     = ([0, 0, 0, 0], \<lparr>request_count = 2, request_window_start = 60\<rparr>)
   \<and> (61 :: real) - 58 < 60 \<and> int (length [58, 59, 60, 61 :: real]) > 2"
  by (simp add: check_rate_limit_def Let_def)

lemma run_calls_append:
  "run_calls limit st (xs @ ys) =
     (case run_calls limit st xs of
        (a, st') \<Rightarrow> (case run_calls limit st' ys of (b, st'') \<Rightarrow> (a @ b, st'')))"
  by (induction xs arbitrary: st) (auto split: prod.splits)

lemma run_calls_within_budget:
  "\<forall>t \<in> set ts. t < request_window_start st + 60 \<Longrightarrow>
   request_count st + int (length ts) \<le> limit \<Longrightarrow>
   run_calls limit st ts
     = (replicate (length ts) 0, st\<lparr>request_count := request_count st + int (length ts)\<rparr>)"
proof (induction ts arbitrary: st)
  case Nil
  then show ?case by simp
next
  case (Cons t ts)
  have step: "check_rate_limit limit t st = (0, st\<lparr>request_count := request_count st + 1\<rparr>)"
    using Cons.prems by (simp add: check_rate_limit_def Let_def)
  have "run_calls limit (st\<lparr>request_count := request_count st + 1\<rparr>) ts
      = (replicate (length ts) 0,
         (st\<lparr>request_count := request_count st + 1\<rparr>)
           \<lparr>request_count := request_count (st\<lparr>request_count := request_count st + 1\<rparr>)
              + int (length ts)\<rparr>)"
    by (rule Cons.IH) (use Cons.prems in auto)
  then show ?case
    using step by (simp add: add.assoc)
qed

text \<open>
  C8 amended: counted from the start of the limiter's current window,
  \<open>RATE_LIMIT_PER_MINUTE\<close> calls entered less than 60 seconds after that start pass
  without sleeping, and the next call entered in that window sleeps for the remainder of
  the window, after which the counter is reset and counts this call, with the window
  started anew at the end of the sleep.
\<close>

theorem rate_limit_fixed_window:
  assumes "\<forall>t \<in> set ts. t < start + 60"
    and "int (length ts) = limit"
    and "t < start + 60"
  shows "run_calls limit \<lparr>request_count = 0, request_window_start = start\<rparr> (ts @ [t])
     = (replicate (length ts) 0 @ [start + 60 - t],
        \<lparr>request_count = 1, request_window_start = start + 60\<rparr>)"
proof -
  let ?st = "\<lparr>request_count = 0, request_window_start = start\<rparr>"
  have a: "run_calls limit ?st ts = (replicate (length ts) 0, ?st\<lparr>request_count := limit\<rparr>)"
    using run_calls_within_budget [of ts ?st limit] assms by simp
  have b: "check_rate_limit limit t \<lparr>request_count = limit, request_window_start = start\<rparr>
      = (start + 60 - t, \<lparr>request_count = 1, request_window_start = start + 60\<rparr>)"
    using assms(3) by (simp add: check_rate_limit_def Let_def)
  show ?thesis
    by (simp add: run_calls_append a b)
qed

theorem rate_limit_fixed_window_witness:
  "run_calls 2 \<lparr>request_count = 0, request_window_start = 100\<rparr> ([101, 130] @ [145])
     = ([0, 0, 15], \<lparr>request_count = 1, request_window_start = 160\<rparr>)"
proof -
  have h1: "\<forall>t \<in> set [101, 130 :: real]. t < 100 + 60" by simp
  have h2: "int (length [101, 130 :: real]) = 2" by simp
  have h3: "(145 :: real) < 100 + 60" by simp
  show ?thesis
    using rate_limit_fixed_window [OF h1 h2 h3] by simp
qed


subsection \<open>Upload processing\<close>

















subsection \<open>Files kept by the upload\<close>

text \<open>
  C10 as stated: the upload saves the incoming file before any validation. An upload
  whose file declares a content length above the limit is rejected with status 400 and
  nothing is written to the upload directory.
\<close>

theorem upload_size_check_counterexample:
  "upload default_config reliable_socketio plain_library one_finding 10
       (Some oversized_upload) empty_disk empty_state
     = (Json_error 400 ''File size exceeds 100MB'', empty_disk, empty_state)
   \<and> empty_disk (upload_path plain_library oversized_upload) = None"
  by (simp add: upload_def oversized_upload_def MAX_CONTENT_LENGTH_def empty_disk_def)

text \<open>
  C10 amended: a request without a file, with an empty file name or with a declared
  content length above the limit is rejected with status 400 before anything is saved, and
  a file whose secured name is empty (a file named \<open>..\<close>) cannot be saved and is
  answered with status 500, nothing being written. Otherwise the file is saved to the
  upload directory before the extension is checked and before parsing: with an invalid
  extension the response is 400 and the saved file is removed again; with a valid
  extension the saved file stays on disk whatever the response, in particular when the
  upload is rejected with 400 for containing no parseable record.
\<close>

theorem upload_file_retention:
  "upload cfg sio lib run_all now None fs s = (Json_error 400 ''No file provided'', fs, s)
   \<and> (f_filename f = [] \<or> (f_content_length f \<noteq> 0 \<and> f_content_length f > MAX_CONTENT_LENGTH) \<longrightarrow>
        fst (snd (upload cfg sio lib run_all now (Some f) fs s)) = fs
        \<and> fst (upload cfg sio lib run_all now (Some f) fs s)
            \<in> {Json_error 400 ''No file provided'', Json_error 400 ''File size exceeds 100MB''})
   \<and> (f_filename f \<noteq> [] \<and> \<not> (f_content_length f \<noteq> 0 \<and> f_content_length f > MAX_CONTENT_LENGTH)
        \<and> secure_filename lib (f_filename f) \<noteq> [] \<longrightarrow>
        (file_extension (f_filename f) \<notin> set valid_extensions \<longrightarrow>
           upload cfg sio lib run_all now (Some f) fs s
             = (Json_error 400 ''Invalid file type. Allowed: pcap, pcapng, log, txt'',
                (fs(upload_path lib f \<mapsto> f_content f))(upload_path lib f := None), s))
        \<and> (file_extension (f_filename f) \<in> set valid_extensions \<longrightarrow>
             fst (snd (upload cfg sio lib run_all now (Some f) fs s))
               = fs(upload_path lib f \<mapsto> f_content f))
        \<and> (fst (upload cfg sio lib run_all now (Some f) fs s)
               = Json_error 400 ''No records found in file'' \<longrightarrow>
             fst (snd (upload cfg sio lib run_all now (Some f) fs s)) (upload_path lib f)
               = Some (f_content f)
             \<and> snd (snd (upload cfg sio lib run_all now (Some f) fs s)) = s))
   \<and> (f_filename f \<noteq> [] \<and> \<not> (f_content_length f \<noteq> 0 \<and> f_content_length f > MAX_CONTENT_LENGTH)
        \<and> secure_filename lib (f_filename f) = [] \<longrightarrow>
        upload cfg sio lib run_all now (Some f) fs s
          = (Json_error 500 ''Cannot save file'', fs,
             s\<lparr>stderr_log := stderr_log s @ [''Error saving file'']\<rparr>))"
proof -
  have nosave: "upload cfg sio lib run_all now (Some f) fs s
          = (Json_error 500 ''Cannot save file'', fs,
             s\<lparr>stderr_log := stderr_log s @ [''Error saving file'']\<rparr>)"
    if "f_filename f \<noteq> []"
      "\<not> (f_content_length f \<noteq> 0 \<and> f_content_length f > MAX_CONTENT_LENGTH)"
      "secure_filename lib (f_filename f) = []"
    using that by (auto simp: upload_def)
  have none: "upload cfg sio lib run_all now None fs s = (Json_error 400 ''No file provided'', fs, s)"
    by (simp add: upload_def)
  have early: "fst (snd (upload cfg sio lib run_all now (Some f) fs s)) = fs
        \<and> fst (upload cfg sio lib run_all now (Some f) fs s)
            \<in> {Json_error 400 ''No file provided'', Json_error 400 ''File size exceeds 100MB''}"
    if "f_filename f = [] \<or> (f_content_length f \<noteq> 0 \<and> f_content_length f > MAX_CONTENT_LENGTH)"
    using that by (auto simp: upload_def)
  have bad: "upload cfg sio lib run_all now (Some f) fs s
             = (Json_error 400 ''Invalid file type. Allowed: pcap, pcapng, log, txt'',
                (fs(upload_path lib f \<mapsto> f_content f))(upload_path lib f := None), s)"
    if "f_filename f \<noteq> []"
      "\<not> (f_content_length f \<noteq> 0 \<and> f_content_length f > MAX_CONTENT_LENGTH)"
      "secure_filename lib (f_filename f) \<noteq> []"
      "file_extension (f_filename f) \<notin> set valid_extensions"
    using that by (simp add: upload_def Let_def)
  have good: "upload cfg sio lib run_all now (Some f) fs s
      = (case parse_saved_file lib (file_extension (f_filename f))
                (fs(upload_path lib f \<mapsto> f_content f)) (upload_path lib f) of
           Inl e \<Rightarrow> (Json_error 500 ''Error parsing file'', fs(upload_path lib f \<mapsto> f_content f),
                     s\<lparr>stderr_log := stderr_log s @ [''Error parsing file'']\<rparr>)
         | Inr records \<Rightarrow>
             if records = []
             then (Json_error 400 ''No records found in file'', fs(upload_path lib f \<mapsto> f_content f), s)
             else case process_upload_records cfg sio lib run_all now records s of
                    (resp, s2) \<Rightarrow> (resp, fs(upload_path lib f \<mapsto> f_content f), s2))"
    if "f_filename f \<noteq> []"
      "\<not> (f_content_length f \<noteq> 0 \<and> f_content_length f > MAX_CONTENT_LENGTH)"
      "secure_filename lib (f_filename f) \<noteq> []"
      "file_extension (f_filename f) \<in> set valid_extensions"
    using that by (auto simp: upload_def Let_def)
  have kept: "fst (snd (upload cfg sio lib run_all now (Some f) fs s))
               = fs(upload_path lib f \<mapsto> f_content f)"
    if "f_filename f \<noteq> []"
      "\<not> (f_content_length f \<noteq> 0 \<and> f_content_length f > MAX_CONTENT_LENGTH)"
      "secure_filename lib (f_filename f) \<noteq> []"
      "file_extension (f_filename f) \<in> set valid_extensions"
    unfolding good [OF that] by (simp split: sum.splits prod.splits)
  have norec_state: "snd (snd (upload cfg sio lib run_all now (Some f) fs s)) = s"
    if "f_filename f \<noteq> []"
      "\<not> (f_content_length f \<noteq> 0 \<and> f_content_length f > MAX_CONTENT_LENGTH)"
      "secure_filename lib (f_filename f) \<noteq> []"
      "file_extension (f_filename f) \<in> set valid_extensions"
      "fst (upload cfg sio lib run_all now (Some f) fs s) = Json_error 400 ''No records found in file''"
  proof -
    have "resp \<noteq> Json_error 400 ''No records found in file''"
      if "process_upload_records cfg sio lib run_all now rs s = (resp, s2)" for rs resp s2
      using that by (auto simp: process_upload_records_def split: prod.splits bool.splits)
    then show ?thesis
      using that(5) unfolding good [OF that(1-4)]
      by (auto split: sum.splits prod.splits if_splits)
  qed
  have norec: "fst (snd (upload cfg sio lib run_all now (Some f) fs s)) (upload_path lib f)
               = Some (f_content f)
             \<and> snd (snd (upload cfg sio lib run_all now (Some f) fs s)) = s"
    if "f_filename f \<noteq> []"
      "\<not> (f_content_length f \<noteq> 0 \<and> f_content_length f > MAX_CONTENT_LENGTH)"
      "secure_filename lib (f_filename f) \<noteq> []"
      "fst (upload cfg sio lib run_all now (Some f) fs s) = Json_error 400 ''No records found in file''"
  proof (cases "file_extension (f_filename f) \<in> set valid_extensions")
    case True
    show ?thesis
      using kept [OF that(1-3) True] norec_state [OF that(1-3) True that(4)] by simp
  next
    case False
    then show ?thesis
      using bad [OF that(1-3) False] that(4) by simp
  qed
  show ?thesis
    using none early bad kept norec nosave by blast
qed

theorem upload_file_retention_witness:
  "fst (snd (upload default_config reliable_socketio plain_library one_finding 10
       (Some oversized_upload) empty_disk empty_state)) = empty_disk
   \<and> upload default_config reliable_socketio plain_library one_finding 10
       (Some executable_upload) empty_disk empty_state
     = (Json_error 400 ''Invalid file type. Allowed: pcap, pcapng, log, txt'',
        (empty_disk(upload_path plain_library executable_upload \<mapsto> f_content executable_upload))
          (upload_path plain_library executable_upload := None), empty_state)
   \<and> fst (upload default_config reliable_socketio plain_library one_finding 10
       (Some comment_only_upload) empty_disk empty_state)
     = Json_error 400 ''No records found in file''
   \<and> fst (snd (upload default_config reliable_socketio plain_library one_finding 10
       (Some comment_only_upload) empty_disk empty_state)) (upload_path plain_library comment_only_upload)
     = Some (f_content comment_only_upload)
   \<and> fst (snd (upload default_config reliable_socketio plain_library one_finding 10
       (Some log_upload) empty_disk empty_state))
     = empty_disk(upload_path plain_library log_upload \<mapsto> f_content log_upload)
   \<and> upload default_config reliable_socketio plain_library one_finding 10
       (Some dotdot_upload) empty_disk empty_state
     = (Json_error 500 ''Cannot save file'', empty_disk,
        empty_state\<lparr>stderr_log := stderr_log empty_state @ [''Error saving file'']\<rparr>)"
proof -
  have o: "f_content_length oversized_upload \<noteq> 0
      \<and> f_content_length oversized_upload > MAX_CONTENT_LENGTH"
    by (simp add: oversized_upload_def MAX_CONTENT_LENGTH_def)
  have prex: "f_filename executable_upload \<noteq> []
      \<and> \<not> (f_content_length executable_upload \<noteq> 0
            \<and> f_content_length executable_upload > MAX_CONTENT_LENGTH)
      \<and> secure_filename plain_library (f_filename executable_upload) \<noteq> []"
    by code_simp
  have prec: "f_filename comment_only_upload \<noteq> []
      \<and> \<not> (f_content_length comment_only_upload \<noteq> 0
            \<and> f_content_length comment_only_upload > MAX_CONTENT_LENGTH)
      \<and> secure_filename plain_library (f_filename comment_only_upload) \<noteq> []"
    by code_simp
  have prel: "f_filename log_upload \<noteq> []
      \<and> \<not> (f_content_length log_upload \<noteq> 0 \<and> f_content_length log_upload > MAX_CONTENT_LENGTH)
      \<and> secure_filename plain_library (f_filename log_upload) \<noteq> []"
    by code_simp
  have x: "file_extension (f_filename executable_upload) \<notin> set valid_extensions"
    by code_simp
  have l: "file_extension (f_filename log_upload) \<in> set valid_extensions"
    by code_simp
  have c: "fst (upload default_config reliable_socketio plain_library one_finding 10
       (Some comment_only_upload) empty_disk empty_state)
     = Json_error 400 ''No records found in file''"
    by code_simp
  note big = upload_file_retention [of default_config reliable_socketio plain_library one_finding 10
        empty_disk empty_state oversized_upload]
  note bad = upload_file_retention [of default_config reliable_socketio plain_library one_finding 10
        empty_disk empty_state executable_upload]
  note empty = upload_file_retention [of default_config reliable_socketio plain_library one_finding 10
        empty_disk empty_state comment_only_upload]
  note good = upload_file_retention [of default_config reliable_socketio plain_library one_finding 10
        empty_disk empty_state log_upload]
  have 1: "fst (snd (upload default_config reliable_socketio plain_library one_finding 10
       (Some oversized_upload) empty_disk empty_state)) = empty_disk"
    using big [THEN conjunct2, THEN conjunct1, THEN mp, OF disjI2, OF o]
    by (rule conjunct1)
  have 2: "upload default_config reliable_socketio plain_library one_finding 10
       (Some executable_upload) empty_disk empty_state
     = (Json_error 400 ''Invalid file type. Allowed: pcap, pcapng, log, txt'',
        (empty_disk(upload_path plain_library executable_upload \<mapsto> f_content executable_upload))
          (upload_path plain_library executable_upload := None), empty_state)"
    using bad [THEN conjunct2, THEN conjunct2, THEN conjunct1, THEN mp, OF prex,
        THEN conjunct1, THEN mp, OF x]
    by simp
  have 3: "fst (snd (upload default_config reliable_socketio plain_library one_finding 10
       (Some comment_only_upload) empty_disk empty_state)) (upload_path plain_library comment_only_upload)
     = Some (f_content comment_only_upload)"
    using empty [THEN conjunct2, THEN conjunct2, THEN conjunct1, THEN mp, OF prec,
        THEN conjunct2, THEN conjunct2, THEN mp, OF c]
    by (rule conjunct1)
  have 4: "fst (snd (upload default_config reliable_socketio plain_library one_finding 10
       (Some log_upload) empty_disk empty_state))
     = empty_disk(upload_path plain_library log_upload \<mapsto> f_content log_upload)"
    using good [THEN conjunct2, THEN conjunct2, THEN conjunct1, THEN mp, OF prel,
        THEN conjunct2, THEN conjunct1, THEN mp, OF l]
    by this
  have pred: "f_filename dotdot_upload \<noteq> []
      \<and> \<not> (f_content_length dotdot_upload \<noteq> 0 \<and> f_content_length dotdot_upload > MAX_CONTENT_LENGTH)
      \<and> secure_filename plain_library (f_filename dotdot_upload) = []"
    by code_simp
  have 5: "upload default_config reliable_socketio plain_library one_finding 10
       (Some dotdot_upload) empty_disk empty_state
     = (Json_error 500 ''Cannot save file'', empty_disk,
        empty_state\<lparr>stderr_log := stderr_log empty_state @ [''Error saving file'']\<rparr>)"
    using upload_file_retention [of default_config reliable_socketio plain_library one_finding 10
        empty_disk empty_state dotdot_upload,
        THEN conjunct2, THEN conjunct2, THEN conjunct2, THEN mp, OF pred] .
  show ?thesis
    using 1 2 c 3 4 5 by (intro conjI)
qed

end
